theory Spec2Isabelle
  imports Main "HOL-Library.AList" "HOL-Library.Char_ord" "HOL-Library.List_Lexorder"
begin

section \<open>Common data\<close>

text \<open>
  Python exceptions are values. \<open>FetchFailed s\<close> is the
  \<^verbatim>\<open>Exception(f"Failed to fetch data: {status}")\<close> of \<^verbatim>\<open>get_oura_sleep_data\<close>;
  the others are the built-in exceptions the modelled lines can raise.
\<close>

datatype error = FetchFailed int | KeyError | ValueError | TypeError

text \<open>
  A Python \<^verbatim>\<open>dict\<close> keeps its keys in insertion order, and assigning to a key that is
  already present keeps the key's position. That is an association list under
  \<open>AList.update\<close>, read with \<open>map_of\<close>.
\<close>

type_synonym ('k, 'v) dict = "('k \<times> 'v) list"

section \<open>The phase-code vendor: \<^verbatim>\<open>oura_api.py\<close>\<close>

subsection \<open>Data\<close>

text \<open>
  \<open>clock\<close> is what \<^verbatim>\<open>time_to_minutes\<close> reads of \<^verbatim>\<open>datetime.fromisoformat(time_str)\<close>:
  its \<^verbatim>\<open>hour\<close> (0 to 23) and \<^verbatim>\<open>minute\<close> (0 to 59).
\<close>

record clock =
  hour :: nat
  minute :: nat

text \<open>
  One element of the \<^verbatim>\<open>data\<close> array of the vendor's answer. The durations are seconds.
  \<^verbatim>\<open>rem_sleep_duration\<close> is optional because \<^verbatim>\<open>get_oura_sleep_data\<close> tests for the key;
  the other keys are read unconditionally.
\<close>

record oura_session =
  day :: string
  bedtime_start :: clock
  bedtime_end :: clock
  sleep_phase_5_min :: string
  awake_time :: int
  deep_sleep_duration :: int
  light_sleep_duration :: int
  rem_sleep_duration :: "int option"
  total_sleep_duration :: int

record oura_response =
  status_code :: int
  data :: "oura_session list"

text \<open>The dictionary \<^verbatim>\<open>processed_entry\<close> of \<^verbatim>\<open>process_sleep_data\<close>; all values are minutes.\<close>

record oura_entry =
  p_day :: string
  p_bedtime_start :: int
  p_bedtime_end :: int
  p_sleeptime_start :: int
  p_sleeptime_end :: int
  p_deep_sleep_duration :: int
  p_awake_time_filtered_phases :: int
  p_awake_time_filtered_subtraction :: int
  p_light_sleep_duration :: int
  p_rem_sleep_duration :: int
  p_total_sleep_duration :: int

subsection \<open>\<^verbatim>\<open>get_oura_sleep_data\<close>: the per-day selection\<close>

text \<open>
  Line 45. The conditional expression binds weaker than \<open>+\<close>: the sum is taken when the
  key \<^verbatim>\<open>rem_sleep_duration\<close> is present, and the value is 0 otherwise.
\<close>

definition oura_total :: "oura_session \<Rightarrow> int" where
  "oura_total session =
     (case rem_sleep_duration session of
        Some rem \<Rightarrow> deep_sleep_duration session + light_sleep_duration session + rem
      | None \<Rightarrow> 0)"

text \<open>Lines 43 to 48: the body of the loop over \<^verbatim>\<open>data\<close>, on the dictionary \<^verbatim>\<open>sleep_data_by_day\<close>.\<close>

definition oura_keep :: "string list \<Rightarrow> oura_session \<Rightarrow> (string, oura_session) dict
    \<Rightarrow> (string, oura_session) dict" where
  "oura_keep dates_to_exclude session sleep_data_by_day =
     (if day session \<notin> set dates_to_exclude then
        (let total = oura_total session in
         case map_of sleep_data_by_day (day session) of
           None \<Rightarrow>
             AList.update (day session) (session\<lparr>total_sleep_duration := total\<rparr>) sleep_data_by_day
         | Some kept \<Rightarrow>
             if total > total_sleep_duration kept
             then AList.update (day session) (session\<lparr>total_sleep_duration := total\<rparr>)
                    sleep_data_by_day
             else sleep_data_by_day)
      else sleep_data_by_day)"

definition oura_by_day :: "oura_session list \<Rightarrow> string list \<Rightarrow> (string, oura_session) dict" where
  "oura_by_day sessions dates_to_exclude = fold (oura_keep dates_to_exclude) sessions []"

text \<open>
  Lines 36 to 54, from the HTTP answer on. \<^verbatim>\<open>sorted\<close> is stable, as \<open>sort_key\<close> is, and
  Python compares strings by code point, as the lexicographic order on \<open>string\<close> does.
\<close>

definition get_oura_sleep_data :: "oura_response \<Rightarrow> string list \<Rightarrow> error + oura_session list" where
  "get_oura_sleep_data response dates_to_exclude =
     (if status_code response = 200
      then Inr (sort_key day (map snd (oura_by_day (data response) dates_to_exclude)))
      else Inl (FetchFailed (status_code response)))"

subsection \<open>\<^verbatim>\<open>process_sleep_data\<close>\<close>

text \<open>Lines 57 to 62.\<close>

definition time_to_minutes :: "clock \<Rightarrow> int" where
  "time_to_minutes t =
     (let minutes = int (hour t) * 60 + int (minute t);
          minutes = (if hour t < 12 then minutes + 24 * 60 else minutes)
      in minutes - 24 * 60)"

text \<open>\<^verbatim>\<open>int(phase)\<close> on one character: a decimal digit, or \<^verbatim>\<open>ValueError\<close>.\<close>

definition int_of_char :: "char \<Rightarrow> error + int" where
  "int_of_char c =
     (if c = CHR ''0'' then Inr 0 else if c = CHR ''1'' then Inr 1
      else if c = CHR ''2'' then Inr 2 else if c = CHR ''3'' then Inr 3
      else if c = CHR ''4'' then Inr 4 else if c = CHR ''5'' then Inr 5
      else if c = CHR ''6'' then Inr 6 else if c = CHR ''7'' then Inr 7
      else if c = CHR ''8'' then Inr 8 else if c = CHR ''9'' then Inr 9
      else Inl ValueError)"

text \<open>Lines 64 and 65.\<close>

fun parse_sleep_phases :: "string \<Rightarrow> error + int list" where
  "parse_sleep_phases [] = Inr []"
| "parse_sleep_phases (phase # rest) =
     (case int_of_char phase of
        Inl e \<Rightarrow> Inl e
      | Inr p \<Rightarrow> (case parse_sleep_phases rest of Inl e \<Rightarrow> Inl e | Inr ps \<Rightarrow> Inr (p # ps)))"

definition phase_duration :: int where
  "phase_duration = 5"

text \<open>Line 80: the index of the first phase that is not 4, or \<^verbatim>\<open>None\<close>.\<close>

definition start_index :: "int list \<Rightarrow> nat option" where
  "start_index sleep_phases =
     map_option fst (find (\<lambda>(i, phase). phase \<noteq> 4) (enumerate 0 sleep_phases))"

text \<open>Line 81.\<close>

definition sleeptime_start :: "int \<Rightarrow> int list \<Rightarrow> int" where
  "sleeptime_start bedtime_start_m sleep_phases =
     bedtime_start_m +
       (case start_index sleep_phases of Some i \<Rightarrow> int i * phase_duration | None \<Rightarrow> 0)"

text \<open>Line 84: the index of the last phase that is not 4, or \<^verbatim>\<open>None\<close>.\<close>

definition end_index :: "int list \<Rightarrow> nat option" where
  "end_index sleep_phases =
     map_option (\<lambda>(i, phase). length sleep_phases - i - 1)
       (find (\<lambda>(i, phase). phase \<noteq> 4) (enumerate 0 (rev sleep_phases)))"

text \<open>Line 85.\<close>

definition sleeptime_end :: "int \<Rightarrow> int list \<Rightarrow> int" where
  "sleeptime_end bedtime_start_m sleep_phases =
     bedtime_start_m +
       (case end_index sleep_phases of
          Some i \<Rightarrow> (int i + 1) * phase_duration
        | None \<Rightarrow> int (length sleep_phases) * phase_duration)"

text \<open>
  Line 88. \<^verbatim>\<open>end_index+1\<close> is evaluated first and raises \<^verbatim>\<open>TypeError\<close> when
  \<^verbatim>\<open>end_index\<close> is \<^verbatim>\<open>None\<close>; a slice from \<^verbatim>\<open>None\<close> starts at the beginning.
\<close>

definition awake_time_filtered_phases :: "int list \<Rightarrow> error + int" where
  "awake_time_filtered_phases sleep_phases =
     (case end_index sleep_phases of
        None \<Rightarrow> Inl TypeError
      | Some e \<Rightarrow>
          (let window = (case start_index sleep_phases of
                           None \<Rightarrow> take (e + 1) sleep_phases
                         | Some s \<Rightarrow> drop s (take (e + 1) sleep_phases))
           in Inr (int (length (filter (\<lambda>phase. phase = 4) window)) * phase_duration)))"

text \<open>
  Lines 72 to 106, the body of the loop for one record that is not excluded. The
  exceptions come in the order of the source: \<^verbatim>\<open>ValueError\<close> from line 76, \<^verbatim>\<open>TypeError\<close>
  from line 88, \<^verbatim>\<open>KeyError\<close> from line 104.
\<close>

definition process_entry :: "oura_session \<Rightarrow> error + oura_entry" where
  "process_entry sleep_data =
     (let bedtime_start_m = time_to_minutes (bedtime_start sleep_data);
          bedtime_end_m = time_to_minutes (bedtime_end sleep_data)
      in case parse_sleep_phases (sleep_phase_5_min sleep_data) of
           Inl e \<Rightarrow> Inl e
         | Inr sleep_phases \<Rightarrow>
             (let sleeptime_start_m = sleeptime_start bedtime_start_m sleep_phases;
                  sleeptime_end_m = sleeptime_end bedtime_start_m sleep_phases
              in case awake_time_filtered_phases sleep_phases of
                   Inl e \<Rightarrow> Inl e
                 | Inr awake_phases \<Rightarrow>
                     (let total_awake_time = awake_time sleep_data div 60;
                          trimmed_time = (sleeptime_start_m - bedtime_start_m)
                                       + (bedtime_end_m - sleeptime_end_m);
                          awake_subtraction = max 0 (total_awake_time - trimmed_time)
                      in case rem_sleep_duration sleep_data of
                           None \<Rightarrow> Inl KeyError
                         | Some rem \<Rightarrow>
                             Inr \<lparr>p_day = day sleep_data,
                                  p_bedtime_start = bedtime_start_m,
                                  p_bedtime_end = bedtime_end_m,
                                  p_sleeptime_start = sleeptime_start_m,
                                  p_sleeptime_end = sleeptime_end_m,
                                  p_deep_sleep_duration = deep_sleep_duration sleep_data div 60,
                                  p_awake_time_filtered_phases = awake_phases,
                                  p_awake_time_filtered_subtraction = awake_subtraction,
                                  p_light_sleep_duration = light_sleep_duration sleep_data div 60,
                                  p_rem_sleep_duration = rem div 60,
                                  p_total_sleep_duration =
                                    total_sleep_duration sleep_data div 60\<rparr>)))"

text \<open>Lines 67 to 109. An exception in one record ends the whole call.\<close>

fun process_sleep_data :: "oura_session list \<Rightarrow> string list \<Rightarrow> error + oura_entry list" where
  "process_sleep_data [] dates_to_exclude = Inr []"
| "process_sleep_data (sleep_data # rest) dates_to_exclude =
     (if day sleep_data \<notin> set dates_to_exclude then
        (case process_entry sleep_data of
           Inl e \<Rightarrow> Inl e
         | Inr processed_entry \<Rightarrow>
             (case process_sleep_data rest dates_to_exclude of
                Inl e \<Rightarrow> Inl e
              | Inr processed_data \<Rightarrow> Inr (processed_entry # processed_data)))
      else process_sleep_data rest dates_to_exclude)"

section \<open>The segment-list vendor: \<^verbatim>\<open>ultrahuman_api.py\<close>\<close>

subsection \<open>Data\<close>

text \<open>
  An element of \<^verbatim>\<open>sleep_stages\<close> (the per-stage summary, \<open>stage_time\<close> in seconds) and
  an element of \<^verbatim>\<open>sleep_graph['data']\<close> (a typed interval between two epoch timestamps).
\<close>

record stage =
  stage_type :: string
  stage_time :: int

record segment =
  seg_type :: string
  seg_start :: int
  seg_end :: int

text \<open>The \<^verbatim>\<open>object\<close> of one raw record; the bedtimes are epoch timestamps in seconds.\<close>

record uh_sleep =
  obj_bedtime_start :: int
  obj_bedtime_end :: int
  sleep_stages :: "stage list"
  sleep_graph :: "segment list"

text \<open>What one HTTP answer holds: the status and, if the path exists, \<^verbatim>\<open>['data']['metric_data'][6]\<close>.\<close>

record uh_response =
  uh_status_code :: int
  metric_data_6 :: "uh_sleep option"

text \<open>A value of the dictionary \<^verbatim>\<open>daily_sleep_data\<close>.\<close>

record uh_kept =
  kept_data :: uh_sleep
  duration :: int
  reference_date :: int

record uh_entry =
  u_day :: string
  u_bedtime_start :: int
  u_bedtime_end :: int
  u_sleeptime_start :: int
  u_sleeptime_end :: int
  u_deep_sleep_duration :: int
  u_awake_time_filtered :: int
  u_light_sleep_duration :: int
  u_rem_sleep_duration :: int
  u_total_sleep_duration :: int

subsection \<open>Dates and times\<close>

text \<open>
  A naive local \<^verbatim>\<open>datetime\<close> is the number of seconds since the local epoch, and a
  \<^verbatim>\<open>timedelta\<close> a number of seconds. \<open>tz\<close> is the offset of the local time zone, taken
  as constant over the data (no daylight-saving change), so \<^verbatim>\<open>timestamp\<close> undoes
  \<^verbatim>\<open>fromtimestamp\<close>. A date is its day number, and the parameter \<open>isoformat\<close> of the
  functions below is \<^verbatim>\<open>date.isoformat\<close> on day numbers.
\<close>

definition fromtimestamp :: "int \<Rightarrow> int \<Rightarrow> int" where
  "fromtimestamp tz ts = ts + tz"

definition timestamp :: "int \<Rightarrow> int \<Rightarrow> int" where
  "timestamp tz dt = dt - tz"

definition date_of :: "int \<Rightarrow> int" where
  "date_of dt = dt div 86400"

text \<open>\<^verbatim>\<open>dt.replace(hour=0, minute=0, second=0, microsecond=0)\<close>\<close>

definition midnight :: "int \<Rightarrow> int" where
  "midnight dt = (dt div 86400) * 86400"

text \<open>
  Lines 48 to 50. A \<^verbatim>\<open>timedelta\<close> is normalised: \<^verbatim>\<open>days\<close> is the floor of the quotient
  by 86400 and \<^verbatim>\<open>seconds\<close> the remainder, between 0 and 86399.
\<close>

definition uh_time_to_minutes :: "int \<Rightarrow> int \<Rightarrow> int" where
  "uh_time_to_minutes dt reference =
     (let delta = dt - reference
      in (delta div 86400) * 24 * 60 + (delta mod 86400) div 60)"

subsection \<open>\<^verbatim>\<open>get_ultrahuman_sleep_data\<close>\<close>

text \<open>
  Lines 21 to 40. \<open>http\<close> is the vendor's answer for each requested day, and the second
  component of the state is what the loop prints: the day and the status of each failed
  request. Reading \<^verbatim>\<open>['data']['metric_data'][6]\<close> off an answer that lacks it raises.
\<close>

function uh_fetch_loop :: "(int \<Rightarrow> string) \<Rightarrow> (int \<Rightarrow> uh_response) \<Rightarrow> string list \<Rightarrow> int \<Rightarrow> int
    \<Rightarrow> uh_sleep list \<times> (int \<times> int) list \<Rightarrow> error + uh_sleep list \<times> (int \<times> int) list" where
  "uh_fetch_loop isoformat http dates_to_exclude current_date end_date st =
     (if current_date \<le> end_date then
        (if isoformat current_date \<notin> set dates_to_exclude then
           (let response = http current_date in
            if uh_status_code response = 200 then
              (case metric_data_6 response of
                 None \<Rightarrow> Inl KeyError
               | Some sleep_data \<Rightarrow>
                   uh_fetch_loop isoformat http dates_to_exclude (current_date + 1) end_date
                     (fst st @ [sleep_data], snd st))
            else
              uh_fetch_loop isoformat http dates_to_exclude (current_date + 1) end_date
                (fst st, snd st @ [(current_date, uh_status_code response)]))
         else uh_fetch_loop isoformat http dates_to_exclude (current_date + 1) end_date st)
      else Inr st)"
  by pat_completeness auto
termination
  by (relation "measure (\<lambda>(isoformat, http, ex, cur, end_date, st). nat (end_date + 1 - cur))") auto

declare uh_fetch_loop.simps [simp del]

definition get_ultrahuman_sleep_data :: "(int \<Rightarrow> string) \<Rightarrow> (int \<Rightarrow> uh_response) \<Rightarrow> int
    \<Rightarrow> int option \<Rightarrow> string list \<Rightarrow> error + uh_sleep list \<times> (int \<times> int) list" where
  "get_ultrahuman_sleep_data isoformat http start_date end_date dates_to_exclude =
     (let end_date = (case end_date of None \<Rightarrow> start_date | Some e \<Rightarrow> e)
      in uh_fetch_loop isoformat http dates_to_exclude start_date end_date ([], []))"

subsection \<open>\<^verbatim>\<open>process_ultrahuman_sleep_data\<close>\<close>

text \<open>Lines 53 to 66: the body of the first loop, on the dictionary \<^verbatim>\<open>daily_sleep_data\<close>.\<close>

definition uh_keep :: "(int \<Rightarrow> string) \<Rightarrow> int \<Rightarrow> string list \<Rightarrow> uh_sleep \<Rightarrow> (string, uh_kept) dict
    \<Rightarrow> (string, uh_kept) dict" where
  "uh_keep isoformat tz dates_to_exclude sleep_data daily_sleep_data =
     (let bedtime_start_dt = fromtimestamp tz (obj_bedtime_start sleep_data);
          bedtime_end_dt = fromtimestamp tz (obj_bedtime_end sleep_data);
          day = isoformat (date_of bedtime_end_dt)
      in if day \<notin> set dates_to_exclude then
           (let reference = midnight bedtime_end_dt;
                entry = \<lparr>kept_data = sleep_data,
                         duration = bedtime_end_dt - bedtime_start_dt,
                         reference_date = reference\<rparr>
            in case map_of daily_sleep_data day of
                 None \<Rightarrow> AList.update day entry daily_sleep_data
               | Some kept \<Rightarrow>
                   if bedtime_end_dt - bedtime_start_dt > duration kept
                   then AList.update day entry daily_sleep_data
                   else daily_sleep_data)
         else daily_sleep_data)"

definition uh_by_day :: "(int \<Rightarrow> string) \<Rightarrow> int \<Rightarrow> uh_sleep list \<Rightarrow> string list
    \<Rightarrow> (string, uh_kept) dict" where
  "uh_by_day isoformat tz sleep_data_list dates_to_exclude =
     fold (uh_keep isoformat tz dates_to_exclude) sleep_data_list []"

text \<open>Lines 79 to 82: \<^verbatim>\<open>next(..., {'stage_time': 0})['stage_time']\<close>.\<close>

definition stage_time_of :: "string \<Rightarrow> stage list \<Rightarrow> int" where
  "stage_time_of ty stages =
     (case find (\<lambda>s. stage_type s = ty) stages of None \<Rightarrow> 0 | Some s \<Rightarrow> stage_time s)"

text \<open>\<^verbatim>\<open>min\<close> and \<^verbatim>\<open>max\<close> of a sequence that is not empty.\<close>

fun py_min :: "int list \<Rightarrow> int" where
  "py_min [] = 0"
| "py_min (x # xs) = fold min xs x"

fun py_max :: "int list \<Rightarrow> int" where
  "py_max [] = 0"
| "py_max (x # xs) = fold max xs x"

text \<open>Lines 94 to 98, with the two timestamps of the comparison as arguments.\<close>

definition awake_time_filtered :: "segment list \<Rightarrow> int \<Rightarrow> int \<Rightarrow> int" where
  "awake_time_filtered graph start_ts end_ts =
     sum_list (map (\<lambda>s. seg_end s - seg_start s)
       (filter (\<lambda>s. seg_type s = ''awake'' \<and> start_ts \<le> seg_start s \<and> seg_start s < end_ts) graph))
     div 60"

text \<open>
  Lines 84 to 102: the sleep window in minutes and the awake minutes inside it, from the
  sleep graph.
\<close>

definition sleep_window :: "int \<Rightarrow> int \<Rightarrow> int \<Rightarrow> int \<Rightarrow> segment list \<Rightarrow> int \<times> int \<times> int" where
  "sleep_window tz reference bedtime_start_minutes bedtime_end_minutes graph =
     (let non_awake_segments = filter (\<lambda>s. seg_type s \<noteq> ''awake'') graph
      in if non_awake_segments \<noteq> [] then
           (let sleeptime_start_dt = fromtimestamp tz (py_min (map seg_start non_awake_segments));
                sleeptime_end_dt = fromtimestamp tz (py_max (map seg_end non_awake_segments))
            in (uh_time_to_minutes sleeptime_start_dt reference,
                uh_time_to_minutes sleeptime_end_dt reference,
                awake_time_filtered graph (timestamp tz sleeptime_start_dt)
                  (timestamp tz sleeptime_end_dt)))
         else (bedtime_start_minutes, bedtime_end_minutes, 0))"

text \<open>Lines 68 to 116: the body of the second loop, for one item of the dictionary.\<close>

definition uh_process_day :: "int \<Rightarrow> string \<times> uh_kept \<Rightarrow> uh_entry" where
  "uh_process_day tz item =
     (let day = fst item;
          sleep_data = kept_data (snd item);
          reference = reference_date (snd item);
          bedtime_start_minutes =
            uh_time_to_minutes (fromtimestamp tz (obj_bedtime_start sleep_data)) reference;
          bedtime_end_minutes =
            uh_time_to_minutes (fromtimestamp tz (obj_bedtime_end sleep_data)) reference;
          stages = sleep_stages sleep_data;
          window = sleep_window tz reference bedtime_start_minutes bedtime_end_minutes
                     (sleep_graph sleep_data)
      in \<lparr>u_day = day,
          u_bedtime_start = bedtime_start_minutes,
          u_bedtime_end = bedtime_end_minutes,
          u_sleeptime_start = fst window,
          u_sleeptime_end = fst (snd window),
          u_deep_sleep_duration = stage_time_of ''deep_sleep'' stages div 60,
          u_awake_time_filtered = snd (snd window),
          u_light_sleep_duration = stage_time_of ''light_sleep'' stages div 60,
          u_rem_sleep_duration = stage_time_of ''rem_sleep'' stages div 60,
          u_total_sleep_duration =
            sum_list (map stage_time (filter (\<lambda>s. stage_type s \<noteq> ''awake'') stages)) div 60\<rparr>)"

text \<open>Lines 42 to 118.\<close>

definition process_ultrahuman_sleep_data :: "(int \<Rightarrow> string) \<Rightarrow> int \<Rightarrow> uh_sleep list
    \<Rightarrow> string list \<Rightarrow> uh_entry list" where
  "process_ultrahuman_sleep_data isoformat tz sleep_data_list dates_to_exclude =
     sort_key u_day
       (map (uh_process_day tz) (uh_by_day isoformat tz sleep_data_list dates_to_exclude))"

section \<open>The merger: \<^verbatim>\<open>create_dataframes\<close> of \<^verbatim>\<open>main_analysis.py\<close>\<close>

text \<open>
  A row of the self-reported table. \<open>a_Date\<close> is the \<^verbatim>\<open>Date\<close> column, a pandas
  timestamp, as the number of its day; the parameter \<open>to_datetime\<close> of
  \<open>create_dataframes\<close> is \<^verbatim>\<open>pd.to_datetime\<close> on the vendors' day strings.
\<close>

record anecdotal_row =
  a_Date :: int
  jared_sleep_start :: int
  jared_total_sleep :: int
  jared_sleep_end :: int

text \<open>
  A row of the merged table after \<^verbatim>\<open>fillna\<close>: the self-reported columns, the column
  \<^verbatim>\<open>day\<close> (a datetime column, which \<^verbatim>\<open>fillna\<close> leaves alone: \<open>None\<close> is \<^verbatim>\<open>NaT\<close>), and
  the numeric columns of each vendor in the order of the keys of its entries.
\<close>

record comparison_row =
  c_anecdotal :: anecdotal_row
  c_day :: "int option"
  c_oura :: "int list"
  c_ultrahuman :: "int list"

definition oura_columns :: "oura_entry \<Rightarrow> int list" where
  "oura_columns e =
     [p_bedtime_start e, p_bedtime_end e, p_sleeptime_start e, p_sleeptime_end e,
      p_deep_sleep_duration e, p_awake_time_filtered_phases e,
      p_awake_time_filtered_subtraction e, p_light_sleep_duration e,
      p_rem_sleep_duration e, p_total_sleep_duration e]"

definition uh_columns :: "uh_entry \<Rightarrow> int list" where
  "uh_columns e =
     [u_bedtime_start e, u_bedtime_end e, u_sleeptime_start e, u_sleeptime_end e,
      u_deep_sleep_duration e, u_awake_time_filtered e, u_light_sleep_duration e,
      u_rem_sleep_duration e, u_total_sleep_duration e]"

text \<open>
  \<^verbatim>\<open>left.merge(right, how='left')\<close> of pandas: the rows of \<open>left\<close> in their order, each
  with every row of \<open>right\<close> that has its key, or once with nothing (the right columns
  are then \<^verbatim>\<open>NaN\<close> or \<^verbatim>\<open>NaT\<close>). The key of a left row can be missing itself, and a
  missing key meets no row of \<open>right\<close>, whose keys are all present.
\<close>

definition left_merge :: "('l \<Rightarrow> 'k option) \<Rightarrow> ('r \<Rightarrow> 'k) \<Rightarrow> 'l list \<Rightarrow> 'r list
    \<Rightarrow> ('l \<times> 'r option) list" where
  "left_merge left_on right_on left right =
     concat (map (\<lambda>l. case filter (\<lambda>r. left_on l = Some (right_on r)) right of
                          [] \<Rightarrow> [(l, None)]
                        | matches \<Rightarrow> map (\<lambda>r. (l, Some r)) matches) left)"

text \<open>
  Lines 21 to 38. \<^verbatim>\<open>pd.DataFrame([])\<close> has no columns, so lines 26 and 27 raise
  \<^verbatim>\<open>KeyError\<close> on an empty list of entries. The first merge joins \<^verbatim>\<open>Date\<close> with the
  phase-code vendor's \<^verbatim>\<open>day\<close>; the second joins on the column \<^verbatim>\<open>day\<close> of its result.
  Lines 34 to 36 put 0 for every missing value of a numeric column.
\<close>

definition create_dataframes :: "(string \<Rightarrow> int) \<Rightarrow> oura_entry list \<Rightarrow> uh_entry list
    \<Rightarrow> anecdotal_row list \<Rightarrow> error + comparison_row list" where
  "create_dataframes to_datetime oura_data ultrahuman_data anecdotal_data =
     (if oura_data = [] then Inl KeyError
      else if ultrahuman_data = [] then Inl KeyError
      else
        (let merged = left_merge (\<lambda>a. Some (a_Date a)) (\<lambda>e. to_datetime (p_day e))
                        anecdotal_data oura_data;
             merged = left_merge (\<lambda>row. map_option (\<lambda>e. to_datetime (p_day e)) (snd row))
                        (\<lambda>e. to_datetime (u_day e)) merged ultrahuman_data
         in Inr (map (\<lambda>row.
                   \<lparr>c_anecdotal = fst (fst row),
                    c_day = map_option (\<lambda>e. to_datetime (p_day e)) (snd (fst row)),
                    c_oura = (case snd (fst row) of
                                None \<Rightarrow> replicate 10 0 | Some e \<Rightarrow> oura_columns e),
                    c_ultrahuman = (case snd row of
                                None \<Rightarrow> replicate 9 0 | Some e \<Rightarrow> uh_columns e)\<rparr>) merged)))"

section \<open>Notions of the specification\<close>


text \<open>A session as the phase-code selection stores it: with the stage sum as its total.\<close>

definition oura_stamp :: "oura_session \<Rightarrow> oura_session" where
  "oura_stamp session = session\<lparr>total_sleep_duration := oura_total session\<rparr>"

text \<open>
  The day of a segment-list record (the local date of its bedtime end), the length its
  selection compares (the bedtime span in seconds), and what the dictionary stores for it.
\<close>

definition uh_day :: "(int \<Rightarrow> string) \<Rightarrow> int \<Rightarrow> uh_sleep \<Rightarrow> string" where
  "uh_day isoformat tz sleep_data =
     isoformat (date_of (fromtimestamp tz (obj_bedtime_end sleep_data)))"

definition uh_span :: "uh_sleep \<Rightarrow> int" where
  "uh_span sleep_data = obj_bedtime_end sleep_data - obj_bedtime_start sleep_data"

definition uh_item :: "int \<Rightarrow> uh_sleep \<Rightarrow> uh_kept" where
  "uh_item tz sleep_data =
     \<lparr>kept_data = sleep_data, duration = uh_span sleep_data,
      reference_date = midnight (fromtimestamp tz (obj_bedtime_end sleep_data))\<rparr>"

definition non_awake_segments :: "uh_sleep \<Rightarrow> segment list" where
  "non_awake_segments r = filter (\<lambda>s. seg_type s \<noteq> ''awake'') (sleep_graph r)"



section \<open>Example inputs\<close>

text \<open>
  Two sessions of the phase-code vendor for the same day, with stage sums of 12000 and
  21000 seconds (200 and 350 minutes). The total the vendor sent is overwritten by the
  selection.
\<close>

definition night_200 :: oura_session where
  "night_200 =
     \<lparr>day = ''2024-07-01'', bedtime_start = \<lparr>hour = 23, minute = 0\<rparr>,
      bedtime_end = \<lparr>hour = 7, minute = 0\<rparr>, sleep_phase_5_min = ''441124'',
      awake_time = 1500, deep_sleep_duration = 3000, light_sleep_duration = 6000,
      rem_sleep_duration = Some 3000, total_sleep_duration = 11000\<rparr>"

definition night_350 :: oura_session where
  "night_350 =
     \<lparr>day = ''2024-07-01'', bedtime_start = \<lparr>hour = 22, minute = 30\<rparr>,
      bedtime_end = \<lparr>hour = 6, minute = 45\<rparr>, sleep_phase_5_min = ''411314'',
      awake_time = 600, deep_sleep_duration = 6000, light_sleep_duration = 9000,
      rem_sleep_duration = Some 6000, total_sleep_duration = 20000\<rparr>"


text \<open>Twelve minutes in bed, asleep in all three buckets of five minutes.\<close>

definition short_night :: oura_session where
  "short_night =
     \<lparr>day = ''2024-07-02'', bedtime_start = \<lparr>hour = 23, minute = 0\<rparr>,
      bedtime_end = \<lparr>hour = 23, minute = 12\<rparr>, sleep_phase_5_min = ''111'',
      awake_time = 0, deep_sleep_duration = 240, light_sleep_duration = 240,
      rem_sleep_duration = Some 240, total_sleep_duration = 720\<rparr>"


text \<open>Half a minute of deep and half a minute of light sleep.\<close>

definition half_minutes_night :: oura_session where
  "half_minutes_night =
     \<lparr>day = ''2024-07-04'', bedtime_start = \<lparr>hour = 23, minute = 0\<rparr>,
      bedtime_end = \<lparr>hour = 23, minute = 5\<rparr>, sleep_phase_5_min = ''1'',
      awake_time = 240, deep_sleep_duration = 30, light_sleep_duration = 30,
      rem_sleep_duration = Some 0, total_sleep_duration = 60\<rparr>"

text \<open>
  \<^verbatim>\<open>isoformat\<close> on the day numbers the examples use: day 19905 after the epoch is
  1 July 2024.
\<close>

definition example_isoformat :: "int \<Rightarrow> string" where
  "example_isoformat d =
     (if d = 0 then ''1970-01-01'' else if d = 19905 then ''2024-07-01''
      else if d = 19906 then ''2024-07-02'' else if d = 19907 then ''2024-07-03''
      else ''9999-12-31'')"

text \<open>
  Two records of the segment-list vendor that end on the morning of 1 July 2024 (UTC):
  eight hours in bed with 200 minutes of sleep in the summary, and seven hours in bed
  with 350 minutes.
\<close>

definition long_bed_200 :: uh_sleep where
  "long_bed_200 =
     \<lparr>obj_bedtime_start = 1719788400, obj_bedtime_end = 1719817200,
      sleep_stages = [\<lparr>stage_type = ''deep_sleep'', stage_time = 3000\<rparr>,
                      \<lparr>stage_type = ''light_sleep'', stage_time = 6000\<rparr>,
                      \<lparr>stage_type = ''rem_sleep'', stage_time = 3000\<rparr>,
                      \<lparr>stage_type = ''awake'', stage_time = 16800\<rparr>],
      sleep_graph = [\<lparr>seg_type = ''awake'', seg_start = 1719788400, seg_end = 1719792000\<rparr>,
                     \<lparr>seg_type = ''light_sleep'', seg_start = 1719792000, seg_end = 1719798000\<rparr>,
                     \<lparr>seg_type = ''awake'', seg_start = 1719798000, seg_end = 1719798090\<rparr>,
                     \<lparr>seg_type = ''deep_sleep'', seg_start = 1719798090, seg_end = 1719804000\<rparr>,
                     \<lparr>seg_type = ''awake'', seg_start = 1719804000, seg_end = 1719817200\<rparr>]\<rparr>"

definition short_bed_350 :: uh_sleep where
  "short_bed_350 =
     \<lparr>obj_bedtime_start = 1719792000, obj_bedtime_end = 1719817200,
      sleep_stages = [\<lparr>stage_type = ''deep_sleep'', stage_time = 6000\<rparr>,
                      \<lparr>stage_type = ''light_sleep'', stage_time = 9000\<rparr>,
                      \<lparr>stage_type = ''rem_sleep'', stage_time = 6000\<rparr>,
                      \<lparr>stage_type = ''awake'', stage_time = 4200\<rparr>],
      sleep_graph = [\<lparr>seg_type = ''light_sleep'', seg_start = 1719792000, seg_end = 1719813000\<rparr>,
                     \<lparr>seg_type = ''awake'', seg_start = 1719813000, seg_end = 1719817200\<rparr>]\<rparr>"

text \<open>A record that ends on 2 July 2024.\<close>

definition next_bed :: uh_sleep where
  "next_bed =
     \<lparr>obj_bedtime_start = 1719874800, obj_bedtime_end = 1719903600,
      sleep_stages = [\<lparr>stage_type = ''light_sleep'', stage_time = 25000\<rparr>],
      sleep_graph = [\<lparr>seg_type = ''light_sleep'', seg_start = 1719875000, seg_end = 1719900000\<rparr>]\<rparr>"

text \<open>The sleep graph of the specification's example, in a bedtime from 0 to 600.\<close>

definition graph_example :: uh_sleep where
  "graph_example =
     \<lparr>obj_bedtime_start = 0, obj_bedtime_end = 600,
      sleep_stages = [],
      sleep_graph = [\<lparr>seg_type = ''asleep'', seg_start = 0, seg_end = 300\<rparr>,
                     \<lparr>seg_type = ''awake'', seg_start = 300, seg_end = 360\<rparr>,
                     \<lparr>seg_type = ''asleep'', seg_start = 360, seg_end = 600\<rparr>]\<rparr>"


text \<open>Answers of the segment-list vendor: day 19906 fails with status 500.\<close>

definition example_http :: "int \<Rightarrow> uh_response" where
  "example_http d =
     (if d = 19905 then \<lparr>uh_status_code = 200, metric_data_6 = Some short_bed_350\<rparr>
      else if d = 19906 then \<lparr>uh_status_code = 500, metric_data_6 = None\<rparr>
      else \<lparr>uh_status_code = 200, metric_data_6 = Some next_bed\<rparr>)"

definition example_anecdotal :: anecdotal_row where
  "example_anecdotal =
     \<lparr>a_Date = 19905, jared_sleep_start = - 30, jared_total_sleep = 420, jared_sleep_end = 400\<rparr>"

section \<open>Lemmas\<close>

subsection \<open>The loop of \<^verbatim>\<open>process_sleep_data\<close> and the two indices\<close>

lemma process_sleep_data_mem:
  "process_sleep_data rs ex = Inr out \<Longrightarrow> e \<in> set out \<Longrightarrow>
     \<exists>sd \<in> set rs. day sd \<notin> set ex \<and> process_entry sd = Inr e"
proof (induction rs arbitrary: out)
  case Nil
  then show ?case by simp
next
  case (Cons sd rest)
  show ?case
  proof (cases "day sd \<in> set ex")
    case True
    with Cons show ?thesis by auto
  next
    case False
    with Cons.prems(1) obtain p ps where p: "process_entry sd = Inr p"
      and ps: "process_sleep_data rest ex = Inr ps" and out: "out = p # ps"
      by (auto split: sum.splits)
    from Cons.prems(2) out have "e = p \<or> e \<in> set ps" by auto
    then show ?thesis
    proof
      assume "e = p"
      with p False show ?thesis by auto
    next
      assume "e \<in> set ps"
      from Cons.IH [OF ps this] show ?thesis by auto
    qed
  qed
qed








subsection \<open>Keeping the longest record of a day\<close>









lemma set_update_subset: "set (AList.update k v al) \<subseteq> insert (k, v) (set al)"
  by (induction al) auto


lemma oura_keep_from:
  assumes "\<forall>kv \<in> set m. fst kv \<notin> set ex \<and> (\<exists>r \<in> S. kv = (day r, oura_stamp r))"
  shows "\<forall>kv \<in> set (oura_keep ex s m).
           fst kv \<notin> set ex \<and> (\<exists>r \<in> insert s S. kv = (day r, oura_stamp r))"
proof -
  have "set (oura_keep ex s m) \<subseteq> set m \<or>
        (day s \<notin> set ex \<and> set (oura_keep ex s m) \<subseteq> insert (day s, oura_stamp s) (set m))"
    using set_update_subset [of "day s" "oura_stamp s" m]
    by (auto simp: oura_keep_def Let_def oura_stamp_def split: option.splits)
  with assms show ?thesis by fastforce
qed

lemma oura_fold_from:
  "\<forall>kv \<in> set m. fst kv \<notin> set ex \<and> (\<exists>r \<in> S. kv = (day r, oura_stamp r)) \<Longrightarrow>
   \<forall>kv \<in> set (fold (oura_keep ex) xs m).
     fst kv \<notin> set ex \<and> (\<exists>r \<in> S \<union> set xs. kv = (day r, oura_stamp r))"
proof (induction xs arbitrary: m S)
  case Nil
  then show ?case by simp
next
  case (Cons x xs)
  from Cons.IH [OF oura_keep_from [OF Cons.prems]] show ?case by simp
qed

lemma oura_by_day_from:
  "kv \<in> set (oura_by_day sessions ex) \<Longrightarrow>
     fst kv \<notin> set ex \<and> (\<exists>r \<in> set sessions. kv = (day r, oura_stamp r))"
  using oura_fold_from [of "[]" ex "{}" sessions] by (auto simp: oura_by_day_def)


lemma day_oura_stamp: "day (oura_stamp r) = day r"
  by (simp add: oura_stamp_def)






lemma uh_keep_cases:
  "uh_keep isoformat tz ex s m = m \<or>
   (uh_day isoformat tz s \<notin> set ex \<and>
    uh_keep isoformat tz ex s m = AList.update (uh_day isoformat tz s) (uh_item tz s) m)"
  by (auto simp: uh_keep_def uh_day_def uh_item_def uh_span_def fromtimestamp_def Let_def
      split: option.splits)



lemma uh_keep_from:
  assumes "\<forall>kv \<in> set m. fst kv \<notin> set ex \<and> (\<exists>r \<in> S. kv = (uh_day isoformat tz r, uh_item tz r))"
  shows "\<forall>kv \<in> set (uh_keep isoformat tz ex s m).
           fst kv \<notin> set ex \<and> (\<exists>r \<in> insert s S. kv = (uh_day isoformat tz r, uh_item tz r))"
proof -
  have "set (uh_keep isoformat tz ex s m) \<subseteq> set m \<or>
        (uh_day isoformat tz s \<notin> set ex \<and>
         set (uh_keep isoformat tz ex s m) \<subseteq> insert (uh_day isoformat tz s, uh_item tz s) (set m))"
    using set_update_subset [of "uh_day isoformat tz s" "uh_item tz s" m]
      uh_keep_cases [of isoformat tz ex s m]
    by auto
  with assms show ?thesis by fastforce
qed

lemma uh_fold_from:
  "\<forall>kv \<in> set m. fst kv \<notin> set ex \<and> (\<exists>r \<in> S. kv = (uh_day isoformat tz r, uh_item tz r)) \<Longrightarrow>
   \<forall>kv \<in> set (fold (uh_keep isoformat tz ex) xs m).
     fst kv \<notin> set ex \<and> (\<exists>r \<in> S \<union> set xs. kv = (uh_day isoformat tz r, uh_item tz r))"
proof (induction xs arbitrary: m S)
  case Nil
  then show ?case by simp
next
  case (Cons x xs)
  from Cons.IH [OF uh_keep_from [OF Cons.prems]] show ?case by simp
qed

lemma uh_by_day_from:
  "kv \<in> set (uh_by_day isoformat tz rs ex) \<Longrightarrow>
     fst kv \<notin> set ex \<and> (\<exists>r \<in> set rs. kv = (uh_day isoformat tz r, uh_item tz r))"
  using uh_fold_from [of "[]" ex "{}" isoformat tz rs] by (auto simp: uh_by_day_def)



lemma u_day_process: "u_day (uh_process_day tz kv) = fst kv"
  by (simp add: uh_process_day_def Let_def)



subsection \<open>One entry of the phase-code normalizer\<close>

lemma process_entry_Inr:
  assumes "process_entry sd = Inr e"
  obtains ps k aw rem where
    "parse_sleep_phases (sleep_phase_5_min sd) = Inr ps"
    "end_index ps = Some k"
    "awake_time_filtered_phases ps = Inr aw"
    "rem_sleep_duration sd = Some rem"
    "e = \<lparr>p_day = day sd,
          p_bedtime_start = time_to_minutes (bedtime_start sd),
          p_bedtime_end = time_to_minutes (bedtime_end sd),
          p_sleeptime_start = sleeptime_start (time_to_minutes (bedtime_start sd)) ps,
          p_sleeptime_end = sleeptime_end (time_to_minutes (bedtime_start sd)) ps,
          p_deep_sleep_duration = deep_sleep_duration sd div 60,
          p_awake_time_filtered_phases = aw,
          p_awake_time_filtered_subtraction =
            max 0 (awake_time sd div 60 -
              ((sleeptime_start (time_to_minutes (bedtime_start sd)) ps
                  - time_to_minutes (bedtime_start sd))
               + (time_to_minutes (bedtime_end sd)
                  - sleeptime_end (time_to_minutes (bedtime_start sd)) ps))),
          p_light_sleep_duration = light_sleep_duration sd div 60,
          p_rem_sleep_duration = rem div 60,
          p_total_sleep_duration = total_sleep_duration sd div 60\<rparr>"
  using assms
  by (auto simp: process_entry_def Let_def awake_time_filtered_phases_def
      split: sum.splits option.splits)




subsection \<open>Minutes and seconds\<close>




lemma floor_sum_bounds:
  fixes a b c :: int
  shows "a div 60 + b div 60 + c div 60 \<le> (a + b + c) div 60 \<and>
         (a + b + c) div 60 \<le> a div 60 + b div 60 + c div 60 + 2"
proof -
  define qa ra qb rb qc rc where
    "qa = a div 60" "ra = a mod 60" "qb = b div 60" "rb = b mod 60" "qc = c div 60" "rc = c mod 60"
  have bounds: "0 \<le> ra" "ra < 60" "0 \<le> rb" "rb < 60" "0 \<le> rc" "rc < 60"
    unfolding qa_ra_qb_rb_qc_rc_def by simp_all
  have split: "a = 60 * qa + ra" "b = 60 * qb + rb" "c = 60 * qc + rc"
    unfolding qa_ra_qb_rb_qc_rc_def by (rule mult_div_mod_eq [symmetric])+
  define r where "r = ra + rb + rc"
  define q where "q = qa + qb + qc"
  have r: "0 \<le> r" "r \<le> 179"
    using bounds by (simp_all add: r_def)
  have "a + b + c = r + 60 * q"
    using split by (simp add: r_def q_def)
  then have "(a + b + c) div 60 = (r + 60 * q) div 60"
    by (rule arg_cong)
  also have "\<dots> = q + r div 60"
    by (rule div_mult_self2) simp
  finally have s: "(a + b + c) div 60 = q + r div 60" .
  have "0 div 60 \<le> r div 60"
    by (rule zdiv_mono1) (use r(1) in simp_all)
  moreover have "r div 60 \<le> 179 div 60"
    by (rule zdiv_mono1) (use r(2) in simp_all)
  ultimately have "0 \<le> r div 60" "r div 60 \<le> 2"
    by simp_all
  then have "q \<le> (a + b + c) div 60 \<and> (a + b + c) div 60 \<le> q + 2"
    by (simp add: s)
  then show ?thesis
    by (simp only: q_def qa_ra_qb_rb_qc_rc_def)
qed

subsection \<open>The stage summary and the sleep graph\<close>

lemma stage_time_of_absent:
  "ty \<notin> stage_type ` set stages \<Longrightarrow> stage_time_of ty stages = 0"
proof -
  assume "ty \<notin> stage_type ` set stages"
  then have "find (\<lambda>s. stage_type s = ty) stages = None"
    by (auto simp: find_None_iff)
  then show ?thesis by (simp add: stage_time_of_def)
qed

lemma stage_time_of_Cons:
  "stage_time_of ty (s # stages) =
     (if stage_type s = ty then stage_time s else stage_time_of ty stages)"
  by (simp add: stage_time_of_def)

lemma summary_sum:
  assumes "distinct (map stage_type stages)"
    and "stage_type ` set stages \<subseteq> {''deep_sleep'', ''light_sleep'', ''rem_sleep'', ''awake''}"
  shows "sum_list (map stage_time (filter (\<lambda>s. stage_type s \<noteq> ''awake'') stages)) =
     stage_time_of ''deep_sleep'' stages + stage_time_of ''light_sleep'' stages
       + stage_time_of ''rem_sleep'' stages"
  using assms
proof (induction stages)
  case Nil
  then show ?case by (simp add: stage_time_of_def)
next
  case (Cons s stages)
  from Cons.prems have absent: "stage_type s \<notin> stage_type ` set stages" by simp
  from Cons.prems have ih:
    "sum_list (map stage_time (filter (\<lambda>s. stage_type s \<noteq> ''awake'') stages)) =
       stage_time_of ''deep_sleep'' stages + stage_time_of ''light_sleep'' stages
         + stage_time_of ''rem_sleep'' stages"
    by (intro Cons.IH) auto
  from Cons.prems(2) consider "stage_type s = ''deep_sleep''" | "stage_type s = ''light_sleep''"
    | "stage_type s = ''rem_sleep''" | "stage_type s = ''awake''" by auto
  then show ?case
  proof cases
    case 1
    with absent have "stage_time_of ''deep_sleep'' stages = 0" by (simp add: stage_time_of_absent)
    with 1 ih show ?thesis by (simp add: stage_time_of_Cons)
  next
    case 2
    with absent have "stage_time_of ''light_sleep'' stages = 0" by (simp add: stage_time_of_absent)
    with 2 ih show ?thesis by (simp add: stage_time_of_Cons)
  next
    case 3
    with absent have "stage_time_of ''rem_sleep'' stages = 0" by (simp add: stage_time_of_absent)
    with 3 ih show ?thesis by (simp add: stage_time_of_Cons)
  next
    case 4
    with ih show ?thesis by (simp add: stage_time_of_Cons)
  qed
qed



lemma uh_output_from:
  assumes "e \<in> set (process_ultrahuman_sleep_data isoformat tz rs ex)"
  shows "\<exists>r \<in> set rs. uh_day isoformat tz r \<notin> set ex \<and>
           e = uh_process_day tz (uh_day isoformat tz r, uh_item tz r)"
proof -
  from assms obtain kv where kv: "kv \<in> set (uh_by_day isoformat tz rs ex)"
    and e: "e = uh_process_day tz kv"
    by (auto simp: process_ultrahuman_sleep_data_def)
  from uh_by_day_from [OF kv] e show ?thesis by auto
qed

lemma get_oura_from:
  assumes "get_oura_sleep_data response ex = Inr kept" and "s \<in> set kept"
  shows "day s \<notin> set ex \<and> (\<exists>r \<in> set (data response). s = oura_stamp r)"
proof -
  from assms have "s \<in> snd ` set (oura_by_day (data response) ex)"
    by (auto simp: get_oura_sleep_data_def split: if_splits)
  then obtain kv where "kv \<in> set (oura_by_day (data response) ex)" "s = snd kv" by auto
  with oura_by_day_from [of kv "data response" ex] show ?thesis
    by (auto simp: day_oura_stamp)
qed





subsection \<open>The fetch loop\<close>


subsection \<open>The examples, evaluated\<close>

lemmas oura_eval =
  get_oura_sleep_data_def oura_by_day_def oura_keep_def oura_total_def process_entry_def
  time_to_minutes_def int_of_char_def start_index_def end_index_def sleeptime_start_def
  sleeptime_end_def awake_time_filtered_phases_def phase_duration_def Let_def

lemmas uh_eval =
  process_ultrahuman_sleep_data_def uh_by_day_def uh_keep_def uh_process_day_def
  sleep_window_def awake_time_filtered_def stage_time_of_def uh_time_to_minutes_def
  fromtimestamp_def timestamp_def date_of_def midnight_def example_isoformat_def Let_def

lemma night_200_350_kept:
  "get_oura_sleep_data \<lparr>status_code = 200, data = [night_200, night_350]\<rparr> [] =
     Inr [night_350\<lparr>total_sleep_duration := 21000\<rparr>]"
  by (simp add: oura_eval night_200_def night_350_def)

lemma process_night_200:
  "process_sleep_data [night_200] [] =
     Inr [\<lparr>p_day = ''2024-07-01'', p_bedtime_start = - 60, p_bedtime_end = 420,
           p_sleeptime_start = - 50, p_sleeptime_end = - 35,
           p_deep_sleep_duration = 50, p_awake_time_filtered_phases = 0,
           p_awake_time_filtered_subtraction = 0,
           p_light_sleep_duration = 100, p_rem_sleep_duration = 50,
           p_total_sleep_duration = 183\<rparr>]"
  by (simp add: oura_eval night_200_def)




lemma uh_graph_example:
  "process_ultrahuman_sleep_data example_isoformat 0 [graph_example] [] =
   [\<lparr>u_day = ''1970-01-01'', u_bedtime_start = 0, u_bedtime_end = 10,
     u_sleeptime_start = 0, u_sleeptime_end = 10, u_deep_sleep_duration = 0,
     u_awake_time_filtered = 1, u_light_sleep_duration = 0,
     u_rem_sleep_duration = 0, u_total_sleep_duration = 0\<rparr>]"
  by (simp add: uh_eval graph_example_def)

lemma fetch_example:
  "get_ultrahuman_sleep_data example_isoformat example_http 19905 (Some 19907) [] =
     Inr ([short_bed_350, next_bed], [(19906, 500)])"
  by (simp add: get_ultrahuman_sleep_data_def uh_fetch_loop.simps example_http_def
      example_isoformat_def)

subsection \<open>The merger on vendors with one entry per day\<close>

lemma filter_unique_key:
  "distinct (map f xs) \<Longrightarrow>
   filter (\<lambda>x. k = Some (f x)) xs =
     (case find (\<lambda>x. k = Some (f x)) xs of None \<Rightarrow> [] | Some x \<Rightarrow> [x])"
proof (induction xs)
  case Nil
  then show ?case by simp
next
  case (Cons x xs)
  show ?case
  proof (cases "k = Some (f x)")
    case True
    with Cons.prems have "\<forall>y \<in> set xs. k \<noteq> Some (f y)" by auto
    then have "filter (\<lambda>x. k = Some (f x)) xs = []" by (simp add: filter_empty_conv)
    with True show ?thesis by simp
  next
    case False
    with Cons show ?thesis by simp
  qed
qed

lemma left_merge_unique:
  assumes "distinct (map right_on right)"
  shows "left_merge left_on right_on left right =
     map (\<lambda>l. (l, find (\<lambda>r. left_on l = Some (right_on r)) right)) left"
proof -
  have "(case filter (\<lambda>r. left_on l = Some (right_on r)) right of
           [] \<Rightarrow> [(l, None)] | matches \<Rightarrow> map (\<lambda>r. (l, Some r)) matches) =
        [(l, find (\<lambda>r. left_on l = Some (right_on r)) right)]" for l
    by (simp add: filter_unique_key [OF assms] split: option.splits)
  then show ?thesis
    by (simp add: left_merge_def concat_map_singleton)
qed

lemma create_dataframes_unique_days:
  assumes "oura_data \<noteq> []" and "ultrahuman_data \<noteq> []"
    and "distinct (map (\<lambda>e. to_datetime (p_day e)) oura_data)"
    and "distinct (map (\<lambda>e. to_datetime (u_day e)) ultrahuman_data)"
  shows "create_dataframes to_datetime oura_data ultrahuman_data anecdotal_data =
     Inr (map (\<lambda>a.
       let oura = find (\<lambda>e. a_Date a = to_datetime (p_day e)) oura_data;
           day = map_option (\<lambda>e. to_datetime (p_day e)) oura;
           ultrahuman = find (\<lambda>e. day = Some (to_datetime (u_day e))) ultrahuman_data
       in \<lparr>c_anecdotal = a, c_day = day,
           c_oura = (case oura of None \<Rightarrow> replicate 10 0 | Some e \<Rightarrow> oura_columns e),
           c_ultrahuman =
             (case ultrahuman of None \<Rightarrow> replicate 9 0 | Some e \<Rightarrow> uh_columns e)\<rparr>)
       anecdotal_data)"
  using assms
  by (simp add: create_dataframes_def left_merge_unique Let_def comp_def)

section \<open>The claims\<close>

subsection \<open>C1: the record kept for a day\<close>




subsection \<open>C2: the total and the three stages\<close>

text \<open>
  C2 as stated, on a session with 30 seconds of deep and 30 seconds of light sleep:
  each stage is 0 minutes and the total is 1 minute.
\<close>

theorem total_is_sum_of_stage_minutes_counterexample:
  "get_oura_sleep_data \<lparr>status_code = 200, data = [half_minutes_night]\<rparr> [] =
     Inr [half_minutes_night] \<and>
   process_sleep_data [half_minutes_night] [] =
     Inr [\<lparr>p_day = ''2024-07-04'', p_bedtime_start = - 60, p_bedtime_end = - 55,
           p_sleeptime_start = - 60, p_sleeptime_end = - 55,
           p_deep_sleep_duration = 0, p_awake_time_filtered_phases = 0,
           p_awake_time_filtered_subtraction = 4, p_light_sleep_duration = 0,
           p_rem_sleep_duration = 0, p_total_sleep_duration = 1\<rparr>]"
  by (simp add: oura_eval half_minutes_night_def)

text \<open>
  C2, amended. The total is the sum of the stage seconds divided by 60, rounded down
  once, and each stage is rounded down on its own: the total is at least the sum of the
  three stage minutes and exceeds it by at most 2. For the phase-code vendor this holds
  of every session that goes through the fetch and then the normalizer. For the
  segment-list vendor the total is the rounded sum of all summary stages that are not
  awake, which is the sum of the deep, light and rem seconds when the summary names no
  other stage and no stage twice.
\<close>

theorem total_sleep_is_floor_of_summed_seconds:
  "(get_oura_sleep_data response ex = Inr kept \<and> process_sleep_data kept ex' = Inr out \<and>
    e \<in> set out \<longrightarrow>
      (\<exists>sd \<in> set (data response). \<exists>rem. rem_sleep_duration sd = Some rem \<and>
         p_deep_sleep_duration e = deep_sleep_duration sd div 60 \<and>
         p_light_sleep_duration e = light_sleep_duration sd div 60 \<and>
         p_rem_sleep_duration e = rem div 60 \<and>
         p_total_sleep_duration e =
           (deep_sleep_duration sd + light_sleep_duration sd + rem) div 60) \<and>
      p_deep_sleep_duration e + p_light_sleep_duration e + p_rem_sleep_duration e
        \<le> p_total_sleep_duration e \<and>
      p_total_sleep_duration e
        \<le> p_deep_sleep_duration e + p_light_sleep_duration e + p_rem_sleep_duration e + 2) \<and>
   (u \<in> set (process_ultrahuman_sleep_data isoformat tz records uex) \<longrightarrow>
      (\<exists>r \<in> set records.
         u_deep_sleep_duration u = stage_time_of ''deep_sleep'' (sleep_stages r) div 60 \<and>
         u_light_sleep_duration u = stage_time_of ''light_sleep'' (sleep_stages r) div 60 \<and>
         u_rem_sleep_duration u = stage_time_of ''rem_sleep'' (sleep_stages r) div 60 \<and>
         u_total_sleep_duration u =
           sum_list (map stage_time
             (filter (\<lambda>s. stage_type s \<noteq> ''awake'') (sleep_stages r))) div 60 \<and>
         (distinct (map stage_type (sleep_stages r)) \<and>
          stage_type ` set (sleep_stages r)
            \<subseteq> {''deep_sleep'', ''light_sleep'', ''rem_sleep'', ''awake''} \<longrightarrow>
            u_total_sleep_duration u =
              (stage_time_of ''deep_sleep'' (sleep_stages r)
               + stage_time_of ''light_sleep'' (sleep_stages r)
               + stage_time_of ''rem_sleep'' (sleep_stages r)) div 60 \<and>
            u_deep_sleep_duration u + u_light_sleep_duration u + u_rem_sleep_duration u
              \<le> u_total_sleep_duration u \<and>
            u_total_sleep_duration u
              \<le> u_deep_sleep_duration u + u_light_sleep_duration u + u_rem_sleep_duration u + 2)))"
proof (intro conjI impI)
  assume a: "get_oura_sleep_data response ex = Inr kept \<and>
    process_sleep_data kept ex' = Inr out \<and> e \<in> set out"
  then obtain s where s: "s \<in> set kept" "process_entry s = Inr e"
    using process_sleep_data_mem by blast
  from get_oura_from [of response ex kept s] a s(1)
  obtain sd where sd: "sd \<in> set (data response)" "s = oura_stamp sd" by auto
  from s(2) obtain rem where rem: "rem_sleep_duration s = Some rem"
    and f: "p_deep_sleep_duration e = deep_sleep_duration s div 60"
      "p_light_sleep_duration e = light_sleep_duration s div 60"
      "p_rem_sleep_duration e = rem div 60"
      "p_total_sleep_duration e = total_sleep_duration s div 60"
    by (rule process_entry_Inr) simp
  from rem sd(2) have rem': "rem_sleep_duration sd = Some rem"
    by (simp add: oura_stamp_def)
  have g: "p_deep_sleep_duration e = deep_sleep_duration sd div 60"
      "p_light_sleep_duration e = light_sleep_duration sd div 60"
      "p_rem_sleep_duration e = rem div 60"
      "p_total_sleep_duration e =
         (deep_sleep_duration sd + light_sleep_duration sd + rem) div 60"
    using f rem' sd(2) by (simp_all add: oura_stamp_def oura_total_def)
  with sd(1) rem'
  show "\<exists>sd \<in> set (data response). \<exists>rem. rem_sleep_duration sd = Some rem \<and>
         p_deep_sleep_duration e = deep_sleep_duration sd div 60 \<and>
         p_light_sleep_duration e = light_sleep_duration sd div 60 \<and>
         p_rem_sleep_duration e = rem div 60 \<and>
         p_total_sleep_duration e =
           (deep_sleep_duration sd + light_sleep_duration sd + rem) div 60"
    by blast
  show "p_deep_sleep_duration e + p_light_sleep_duration e + p_rem_sleep_duration e
        \<le> p_total_sleep_duration e"
    unfolding g using floor_sum_bounds by blast
  show "p_total_sleep_duration e
        \<le> p_deep_sleep_duration e + p_light_sleep_duration e + p_rem_sleep_duration e + 2"
    unfolding g using floor_sum_bounds by blast
next
  assume "u \<in> set (process_ultrahuman_sleep_data isoformat tz records uex)"
  then obtain r where r: "r \<in> set records"
    and u: "u = uh_process_day tz (uh_day isoformat tz r, uh_item tz r)"
    using uh_output_from by blast
  let ?st = "sleep_stages r"
  have f: "u_deep_sleep_duration u = stage_time_of ''deep_sleep'' ?st div 60"
    "u_light_sleep_duration u = stage_time_of ''light_sleep'' ?st div 60"
    "u_rem_sleep_duration u = stage_time_of ''rem_sleep'' ?st div 60"
    "u_total_sleep_duration u =
       sum_list (map stage_time (filter (\<lambda>s. stage_type s \<noteq> ''awake'') ?st)) div 60"
    by (simp_all add: u uh_process_day_def uh_item_def Let_def)
  have "u_total_sleep_duration u =
              (stage_time_of ''deep_sleep'' ?st + stage_time_of ''light_sleep'' ?st
               + stage_time_of ''rem_sleep'' ?st) div 60 \<and>
            u_deep_sleep_duration u + u_light_sleep_duration u + u_rem_sleep_duration u
              \<le> u_total_sleep_duration u \<and>
            u_total_sleep_duration u
              \<le> u_deep_sleep_duration u + u_light_sleep_duration u + u_rem_sleep_duration u + 2"
    if "distinct (map stage_type ?st) \<and>
        stage_type ` set ?st \<subseteq> {''deep_sleep'', ''light_sleep'', ''rem_sleep'', ''awake''}"
  proof -
    from that have "sum_list (map stage_time (filter (\<lambda>s. stage_type s \<noteq> ''awake'') ?st)) =
      stage_time_of ''deep_sleep'' ?st + stage_time_of ''light_sleep'' ?st
        + stage_time_of ''rem_sleep'' ?st"
      by (intro summary_sum) simp_all
    then show ?thesis
      unfolding f using floor_sum_bounds by simp
  qed
  with f r
  show "\<exists>r \<in> set records.
         u_deep_sleep_duration u = stage_time_of ''deep_sleep'' (sleep_stages r) div 60 \<and>
         u_light_sleep_duration u = stage_time_of ''light_sleep'' (sleep_stages r) div 60 \<and>
         u_rem_sleep_duration u = stage_time_of ''rem_sleep'' (sleep_stages r) div 60 \<and>
         u_total_sleep_duration u =
           sum_list (map stage_time
             (filter (\<lambda>s. stage_type s \<noteq> ''awake'') (sleep_stages r))) div 60 \<and>
         (distinct (map stage_type (sleep_stages r)) \<and>
          stage_type ` set (sleep_stages r)
            \<subseteq> {''deep_sleep'', ''light_sleep'', ''rem_sleep'', ''awake''} \<longrightarrow>
            u_total_sleep_duration u =
              (stage_time_of ''deep_sleep'' (sleep_stages r)
               + stage_time_of ''light_sleep'' (sleep_stages r)
               + stage_time_of ''rem_sleep'' (sleep_stages r)) div 60 \<and>
            u_deep_sleep_duration u + u_light_sleep_duration u + u_rem_sleep_duration u
              \<le> u_total_sleep_duration u \<and>
            u_total_sleep_duration u
              \<le> u_deep_sleep_duration u + u_light_sleep_duration u + u_rem_sleep_duration u + 2)"
    by blast
qed

text \<open>
  The session of the counterexample through the fetch and the normalizer (0 + 0 + 0
  \<open>\<le>\<close> 1 \<open>\<le>\<close> 0 + 0 + 0 + 2), and the entry of the record \<open>next_bed\<close>.
\<close>

theorem total_sleep_is_floor_of_summed_seconds_witness:
  "(let e = \<lparr>p_day = ''2024-07-04'', p_bedtime_start = - 60, p_bedtime_end = - 55,
             p_sleeptime_start = - 60, p_sleeptime_end = - 55,
             p_deep_sleep_duration = 0, p_awake_time_filtered_phases = 0,
             p_awake_time_filtered_subtraction = 4, p_light_sleep_duration = 0,
             p_rem_sleep_duration = 0, p_total_sleep_duration = 1\<rparr>
    in process_sleep_data [half_minutes_night] [] = Inr [e] \<and>
       p_deep_sleep_duration e + p_light_sleep_duration e + p_rem_sleep_duration e
         \<le> p_total_sleep_duration e \<and>
       p_total_sleep_duration e
         \<le> p_deep_sleep_duration e + p_light_sleep_duration e + p_rem_sleep_duration e + 2) \<and>
   (\<exists>r \<in> set [next_bed].
      u_total_sleep_duration (uh_process_day 0 (''2024-07-02'', uh_item 0 next_bed)) =
        sum_list (map stage_time
          (filter (\<lambda>s. stage_type s \<noteq> ''awake'') (sleep_stages r))) div 60)"
proof -
  let ?e = "\<lparr>p_day = ''2024-07-04'', p_bedtime_start = - 60, p_bedtime_end = - 55,
             p_sleeptime_start = - 60, p_sleeptime_end = - 55,
             p_deep_sleep_duration = 0, p_awake_time_filtered_phases = 0,
             p_awake_time_filtered_subtraction = 4, p_light_sleep_duration = 0,
             p_rem_sleep_duration = 0, p_total_sleep_duration = 1\<rparr>"
  let ?u = "uh_process_day 0 (''2024-07-02'', uh_item 0 next_bed)"
  have k: "get_oura_sleep_data \<lparr>status_code = 200, data = [half_minutes_night]\<rparr> [] =
      Inr [half_minutes_night]"
    by (simp add: oura_eval half_minutes_night_def)
  have p: "process_sleep_data [half_minutes_night] [] = Inr [?e]"
    by (simp add: oura_eval half_minutes_night_def)
  have m: "?u \<in> set (process_ultrahuman_sleep_data example_isoformat 0 [next_bed] [])"
    by (simp add: uh_eval uh_item_def uh_span_def next_bed_def)
  from total_sleep_is_floor_of_summed_seconds
    [of "\<lparr>status_code = 200, data = [half_minutes_night]\<rparr>" "[]" "[half_minutes_night]"
      "[]" "[?e]" ?e ?u example_isoformat 0 "[next_bed]" "[]"] k p m
  show ?thesis by (simp add: Let_def)
qed

subsection \<open>C3: the minute offset of a clock time\<close>

text \<open>
  C3 as stated, at 07:30: the claim gives \<open>7 * 60 + 30 - 1440\<close>, the function
  gives 450.
\<close>

theorem time_to_minutes_morning_counterexample:
  "time_to_minutes \<lparr>hour = 7, minute = 30\<rparr> = 450 \<and>
   time_to_minutes \<lparr>hour = 7, minute = 30\<rparr> \<noteq> 7 * 60 + 30 - 1440"
  by (simp add: time_to_minutes_def)

text \<open>
  C3, amended. A time before noon keeps the offset \<open>h * 60 + m\<close> (the 24 hours added
  on line 61 are the 24 hours subtracted on line 62), and a time from noon on gets
  \<open>h * 60 + m - 1440\<close>, which is negative for every clock time: the evening before
  the reference midnight.
\<close>

theorem time_to_minutes_offsets:
  "(hour t < 12 \<longrightarrow> time_to_minutes t = int (hour t) * 60 + int (minute t)) \<and>
   (12 \<le> hour t \<longrightarrow> time_to_minutes t = int (hour t) * 60 + int (minute t) - 1440)"
  by (simp add: time_to_minutes_def)

theorem time_to_minutes_offsets_witness:
  "time_to_minutes \<lparr>hour = 7, minute = 30\<rparr> = 450 \<and>
   time_to_minutes \<lparr>hour = 23, minute = 15\<rparr> = - 45"
  using time_to_minutes_offsets [of "\<lparr>hour = 7, minute = 30\<rparr>"]
    time_to_minutes_offsets [of "\<lparr>hour = 23, minute = 15\<rparr>"]
  by simp

subsection \<open>C4: the sleep window inside the bedtime window\<close>




subsection \<open>C5: a night of awake phases\<close>




subsection \<open>C6: the awake minutes of the segment-list normalizer\<close>



subsection \<open>C7: the merger\<close>

text \<open>
  C7, at the input the claim is about: a day that only the self-reported table has,
  because a vendor returned nothing at all. \<^verbatim>\<open>fetch_and_process_data\<close> passes the empty
  list on for such a vendor, and \<open>create_dataframes\<close> raises \<^verbatim>\<open>KeyError\<close> on it where
  the claim has a row of zeros. (\<open>create_dataframes_unique_days\<close> above is what the merger
  returns when both vendors have entries.)
\<close>

theorem create_dataframes_empty_vendor:
  "create_dataframes to_datetime [] ultrahuman_data [example_anecdotal] = Inl KeyError \<and>
   create_dataframes to_datetime oura_data [] [example_anecdotal] = Inl KeyError"
  by (simp add: create_dataframes_def)

subsection \<open>C8: a failed request\<close>



subsection \<open>C9: excluded days\<close>

text \<open>
  C9. A day of the exclusion list is the day of no session that the phase-code fetch
  keeps, of no session that the phase-code normalizer returns, of no key of the
  dictionary in which the segment-list normalizer selects (a record of that day is
  dropped before the selection), and of no session that it returns.
\<close>

theorem excluded_days_never_appear:
  "d \<in> set ex \<Longrightarrow>
   (get_oura_sleep_data response ex = Inr kept \<longrightarrow> d \<notin> day ` set kept) \<and>
   (process_sleep_data sessions ex = Inr out \<longrightarrow> d \<notin> p_day ` set out) \<and>
   d \<notin> fst ` set (uh_by_day isoformat tz records ex) \<and>
   d \<notin> u_day ` set (process_ultrahuman_sleep_data isoformat tz records ex)"
proof (intro conjI impI)
  assume d: "d \<in> set ex"
  {
    assume "get_oura_sleep_data response ex = Inr kept"
    with d show "d \<notin> day ` set kept"
      using get_oura_from [of response ex kept] by blast
  }
  {
    assume o: "process_sleep_data sessions ex = Inr out"
    show "d \<notin> p_day ` set out"
    proof
      assume "d \<in> p_day ` set out"
      then obtain e where e: "e \<in> set out" "p_day e = d" by auto
      from process_sleep_data_mem [OF o e(1)] obtain sd
        where sd: "day sd \<notin> set ex" "process_entry sd = Inr e" by blast
      from sd(2) have "p_day e = day sd"
        by (rule process_entry_Inr) simp
      with sd(1) e(2) d show False by simp
    qed
  }
  from d show "d \<notin> fst ` set (uh_by_day isoformat tz records ex)"
    using uh_by_day_from [of _ isoformat tz records ex] by blast
  show "d \<notin> u_day ` set (process_ultrahuman_sleep_data isoformat tz records ex)"
  proof
    assume "d \<in> u_day ` set (process_ultrahuman_sleep_data isoformat tz records ex)"
    then obtain x where x: "x \<in> set (process_ultrahuman_sleep_data isoformat tz records ex)"
      "u_day x = d" by auto
    from uh_output_from [OF x(1)] obtain r where "uh_day isoformat tz r \<notin> set ex"
      "x = uh_process_day tz (uh_day isoformat tz r, uh_item tz r)" by blast
    then have "u_day x \<notin> set ex" by (simp add: u_day_process)
    with x(2) d show False by simp
  qed
qed

text \<open>
  With 1 July 2024 excluded, of a session of 1 July and one of 2 July only the second
  comes out, for both vendors.
\<close>

theorem excluded_days_never_appear_witness:
  "map day (projr (get_oura_sleep_data \<lparr>status_code = 200, data = [night_200, short_night]\<rparr>
      [''2024-07-01''])) = [''2024-07-02''] \<and>
   map p_day (projr (process_sleep_data [night_200, short_night] [''2024-07-01''])) =
     [''2024-07-02''] \<and>
   map u_day (process_ultrahuman_sleep_data example_isoformat 0 [long_bed_200, next_bed]
      [''2024-07-01'']) = [''2024-07-02''] \<and>
   ''2024-07-01'' \<notin> p_day ` set (projr (process_sleep_data [night_200, short_night]
      [''2024-07-01''])) \<and>
   ''2024-07-01'' \<notin> u_day ` set (process_ultrahuman_sleep_data example_isoformat 0
      [long_bed_200, next_bed] [''2024-07-01''])"
proof -
  have k: "get_oura_sleep_data \<lparr>status_code = 200, data = [night_200, short_night]\<rparr>
      [''2024-07-01''] = Inr [short_night\<lparr>total_sleep_duration := 720\<rparr>]"
    by (simp add: oura_eval night_200_def short_night_def)
  have p: "process_sleep_data [night_200, short_night] [''2024-07-01''] =
      Inr [\<lparr>p_day = ''2024-07-02'', p_bedtime_start = - 60, p_bedtime_end = - 48,
            p_sleeptime_start = - 60, p_sleeptime_end = - 45,
            p_deep_sleep_duration = 4, p_awake_time_filtered_phases = 0,
            p_awake_time_filtered_subtraction = 3, p_light_sleep_duration = 4,
            p_rem_sleep_duration = 4, p_total_sleep_duration = 12\<rparr>]"
    by (simp add: oura_eval night_200_def short_night_def)
  have u: "map u_day (process_ultrahuman_sleep_data example_isoformat 0 [long_bed_200, next_bed]
      [''2024-07-01'']) = [''2024-07-02'']"
    by (simp add: uh_eval long_bed_200_def next_bed_def)
  from excluded_days_never_appear [of "''2024-07-01''" "[''2024-07-01'']"
      "\<lparr>status_code = 200, data = [night_200, short_night]\<rparr>"
      "[short_night\<lparr>total_sleep_duration := 720\<rparr>]" "[night_200, short_night]"
      "projr (process_sleep_data [night_200, short_night] [''2024-07-01''])"
      example_isoformat 0 "[long_bed_200, next_bed]"] k p u
  show ?thesis by (simp add: short_night_def)
qed

subsection \<open>C10: the awake minutes by subtraction\<close>

text \<open>
  C10. Every session the phase-code normalizer returns is the entry of a record of the
  input, and its awake minutes by subtraction are the larger of 0 and the record's
  awake seconds divided by 60 (rounded down) minus the trimmed edges
  \<open>(sleep_start - bedtime_start) + (bedtime_end - sleep_end)\<close>; they are never
  negative.
\<close>

theorem awake_subtraction_clamped:
  "process_sleep_data sleep_data_list dates_to_exclude = Inr out \<Longrightarrow> e \<in> set out \<Longrightarrow>
   \<exists>sd \<in> set sleep_data_list. process_entry sd = Inr e \<and>
     p_awake_time_filtered_subtraction e =
       max 0 (awake_time sd div 60
              - ((p_sleeptime_start e - p_bedtime_start e)
                 + (p_bedtime_end e - p_sleeptime_end e))) \<and>
     0 \<le> p_awake_time_filtered_subtraction e"
proof -
  assume "process_sleep_data sleep_data_list dates_to_exclude = Inr out" and "e \<in> set out"
  then obtain sd where sd: "sd \<in> set sleep_data_list" "process_entry sd = Inr e"
    using process_sleep_data_mem by blast
  from sd(2) have "p_awake_time_filtered_subtraction e =
       max 0 (awake_time sd div 60
              - ((p_sleeptime_start e - p_bedtime_start e)
                 + (p_bedtime_end e - p_sleeptime_end e)))"
    by (rule process_entry_Inr) simp
  then show ?thesis using sd by auto
qed

text \<open>
  The session \<open>night_200\<close>: 25 awake minutes, trimmed edges of \<open>10 + 455\<close> minutes,
  and 0 awake minutes by subtraction.
\<close>

theorem awake_subtraction_clamped_witness:
  "(let e = \<lparr>p_day = ''2024-07-01'', p_bedtime_start = - 60, p_bedtime_end = 420,
             p_sleeptime_start = - 50, p_sleeptime_end = - 35,
             p_deep_sleep_duration = 50, p_awake_time_filtered_phases = 0,
             p_awake_time_filtered_subtraction = 0,
             p_light_sleep_duration = 100, p_rem_sleep_duration = 50,
             p_total_sleep_duration = 183\<rparr>
    in process_sleep_data [night_200] [] = Inr [e] \<and>
       (\<exists>sd \<in> set [night_200]. process_entry sd = Inr e \<and>
          p_awake_time_filtered_subtraction e =
            max 0 (awake_time sd div 60
                   - ((p_sleeptime_start e - p_bedtime_start e)
                      + (p_bedtime_end e - p_sleeptime_end e))) \<and>
          0 \<le> p_awake_time_filtered_subtraction e) \<and>
       awake_time night_200 div 60 - ((- 50 - (- 60)) + (420 - (- 35))) = - 440)"
proof -
  let ?e = "\<lparr>p_day = ''2024-07-01'', p_bedtime_start = - 60, p_bedtime_end = 420,
             p_sleeptime_start = - 50, p_sleeptime_end = - 35,
             p_deep_sleep_duration = 50, p_awake_time_filtered_phases = 0,
             p_awake_time_filtered_subtraction = 0,
             p_light_sleep_duration = 100, p_rem_sleep_duration = 50,
             p_total_sleep_duration = 183\<rparr>"
  have a: "awake_time night_200 div 60 - ((- 50 - (- 60)) + (420 - (- 35))) = - 440"
    by (simp add: night_200_def)
  from awake_subtraction_clamped [OF process_night_200, of ?e] a process_night_200
  show ?thesis by (simp add: Let_def)
qed

end
